theory Spec2Isabelle
  imports Main "HOL-Library.Word"
begin

section \<open>The EVMC host-context bridge of core/vm/evmc.go\<close>

text \<open>
  The development follows \<^verbatim>\<open>core/vm/evmc.go\<close>: the host context that an external
  bytecode engine calls back into (storage writes with refund accounting, block hashes,
  self-destruct, nested call dispatch), the revision resolver and the engine bridge
  \<^verbatim>\<open>Run\<close>. The state database, the chain configuration, the gas constants of
  package \<^verbatim>\<open>vars\<close> and the engine itself live outside that file; they appear here as
  records and parameters.
\<close>

subsection \<open>Machine types\<close>

text \<open>
  \<^verbatim>\<open>common.Hash\<close> is 32 bytes and \<^verbatim>\<open>common.Address\<close> 20 bytes; the zero
  value \<^verbatim>\<open>common.Hash{}\<close> is the word 0. Go's \<^verbatim>\<open>int64\<close> and \<^verbatim>\<open>uint64\<close> are
  both 64-bit words: an \<^verbatim>\<open>int64\<close> is read with \<open>sint\<close> and compared with
  \<open><s\<close> and \<open>\<le>s\<close>, a \<^verbatim>\<open>uint64\<close> is read with \<open>uint\<close> or \<open>unat\<close>.
\<close>

type_synonym hash = "256 word"
type_synonym address = "160 word"
type_synonym uint64 = "64 word"
type_synonym int64 = "64 word"
type_synonym bytes = "8 word list"

text \<open>The conversion \<^verbatim>\<open>uint64(x)\<close> of an \<^verbatim>\<open>int64\<close>: the value modulo \<open>2 ^ 64\<close>.\<close>

definition uint64_of_int64 :: "int64 \<Rightarrow> uint64" where
  "uint64_of_int64 x = word_of_int (sint x mod 2 ^ 64)"

text \<open>\<^verbatim>\<open>big.Int.Int64()\<close>: the low 64 bits of the integer, read as signed.\<close>

definition Int64 :: "int \<Rightarrow> int64" where
  "Int64 x = word_of_int x"

subsection \<open>Gas constants of package vars\<close>

text \<open>
  The constants \<^verbatim>\<open>vars.SstoreRefundGas\<close> and the others are declared outside
  \<^verbatim>\<open>evmc.go\<close>; the functions below take them as a parameter of this record type.
  All of them are \<^verbatim>\<open>uint64\<close>.
\<close>

record vars =
  SstoreRefundGas :: uint64
  NetSstoreClearRefund :: uint64
  NetSstoreResetRefund :: uint64
  NetSstoreResetClearRefund :: uint64
  SstoreSetGasEIP2200 :: uint64
  SstoreResetGasEIP2200 :: uint64
  SloadGasEIP2200 :: uint64
  SelfdestructRefundGas :: uint64

subsection \<open>Chain configuration\<close>

text \<open>
  The configuration answers, for each named transition, the block height at which it
  becomes active, or nothing when it is never activated (a \<^verbatim>\<open>*uint64\<close> in Go).
\<close>

record ChainConfig =
  GetEIP7Transition :: "uint64 option"
  GetEIP150Transition :: "uint64 option"
  GetEIP155Transition :: "uint64 option"
  GetEIP161dTransition :: "uint64 option"
  GetEIP198Transition :: "uint64 option"
  GetEIP145Transition :: "uint64 option"
  GetEIP1283DisableTransition :: "uint64 option"
  GetEIP1884Transition :: "uint64 option"
  GetEIP2200Transition :: "uint64 option"

text \<open>
  Modelled from the spec: the predicate \<^verbatim>\<open>IsEnabled(transition, blockNumber)\<close> of the
  configuration object is not part of \<^verbatim>\<open>evmc.go\<close>. The spec's glossary defines a
  transition as "a named protocol upgrade toggled active at-or-after a specific block
  height"; a transition without a height is never active.
\<close>

definition IsEnabled :: "uint64 option \<Rightarrow> int \<Rightarrow> bool" where
  "IsEnabled f n = (case f of None \<Rightarrow> False | Some h \<Rightarrow> uint h \<le> n)"

subsection \<open>State accessor\<close>

text \<open>
  Modelled from the spec: the state database behind \<^verbatim>\<open>host.env.StateDB\<close> is not part
  of \<^verbatim>\<open>evmc.go\<close>. The spec describes it as a "mutable key/value store keyed by account
  address, holding balances, code, storage slots, and refund counters", with the
  operations \<^verbatim>\<open>getState/setState/getCommittedState\<close>,
  \<^verbatim>\<open>getBalance/addBalance\<close>, \<^verbatim>\<open>getCodeSize\<close>, \<^verbatim>\<open>hasSuicided/suicide\<close> and
  \<^verbatim>\<open>addRefund/subRefund\<close>. The committed value of a slot is its value "as of the start
  of the enclosing transaction", so no write of the transaction changes it. The refund
  counter is an integer that "must never underflow". The field \<open>setLog\<close> records the
  calls of the set operation in order, most recent first, so that a claim about the
  operation being invoked can be stated.
\<close>

record StateDB =
  storage :: "address \<Rightarrow> hash \<Rightarrow> hash"
  committed :: "address \<Rightarrow> hash \<Rightarrow> hash"
  balance :: "address \<Rightarrow> int"
  suicided :: "address \<Rightarrow> bool"
  codeSize :: "address \<Rightarrow> nat"
  refund :: nat
  setLog :: "(address \<times> hash \<times> hash) list"

datatype panic = RefundBelowZero | UnknownCallKind

definition GetState :: "StateDB \<Rightarrow> address \<Rightarrow> hash \<Rightarrow> hash" where
  "GetState db addr key = storage db addr key"

definition GetCommittedState :: "StateDB \<Rightarrow> address \<Rightarrow> hash \<Rightarrow> hash" where
  "GetCommittedState db addr key = committed db addr key"

definition SetState :: "StateDB \<Rightarrow> address \<Rightarrow> hash \<Rightarrow> hash \<Rightarrow> StateDB" where
  "SetState db addr key v =
     db\<lparr>storage := (storage db)(addr := (storage db addr)(key := v)),
        setLog := (addr, key, v) # setLog db\<rparr>"

definition AddRefund :: "StateDB \<Rightarrow> uint64 \<Rightarrow> StateDB" where
  "AddRefund db gas = db\<lparr>refund := refund db + unat gas\<rparr>"

text \<open>A subtraction that would take the counter below zero is refused.\<close>

definition SubRefund :: "StateDB \<Rightarrow> uint64 \<Rightarrow> panic + StateDB" where
  "SubRefund db gas =
     (if unat gas > refund db then Inl RefundBelowZero
      else Inr (db\<lparr>refund := refund db - unat gas\<rparr>))"

definition HasSuicided :: "StateDB \<Rightarrow> address \<Rightarrow> bool" where
  "HasSuicided db addr = suicided db addr"

definition GetBalance :: "StateDB \<Rightarrow> address \<Rightarrow> int" where
  "GetBalance db addr = balance db addr"

definition AddBalance :: "StateDB \<Rightarrow> address \<Rightarrow> int \<Rightarrow> StateDB" where
  "AddBalance db addr amount = db\<lparr>balance := (balance db)(addr := balance db addr + amount)\<rparr>"

text \<open>
  Marking an account destroyed also empties its balance: the spec has a second
  self-destruct of the same account "transfer zero".
\<close>

definition Suicide :: "StateDB \<Rightarrow> address \<Rightarrow> StateDB" where
  "Suicide db addr =
     db\<lparr>suicided := (suicided db)(addr := True), balance := (balance db)(addr := 0)\<rparr>"

definition GetCodeSize :: "StateDB \<Rightarrow> address \<Rightarrow> nat" where
  "GetCodeSize db addr = codeSize db addr"

subsection \<open>Execution environment and host context\<close>

record BlockContext =
  BlockNumber :: int
  GetHash :: "uint64 \<Rightarrow> hash"

record Contract =
  Code :: bytes
  Gas :: uint64
  Address :: address
  Caller :: address
  Value :: int

record EVM =
  Context :: BlockContext
  StateDB :: StateDB
  chainConfig :: ChainConfig
  depth :: int64

record hostContext =
  host_env :: EVM
  host_contract :: Contract

text \<open>The host context holds a pointer to the environment: a write to the state database
  through it is a new environment inside the host context.\<close>

definition with_db :: "hostContext \<Rightarrow> StateDB \<Rightarrow> hostContext" where
  "with_db host db = host\<lparr>host_env := (host_env host)\<lparr>StateDB := db\<rparr>\<rparr>"

datatype StorageStatus =
  StorageUnchanged | StorageModified | StorageModifiedAgain | StorageAdded | StorageDeleted

subsection \<open>hostContext.GetStorage and hostContext.SetStorage\<close>

definition GetStorage :: "hostContext \<Rightarrow> address \<Rightarrow> hash \<Rightarrow> hash" where
  "GetStorage host addr key = GetState (StateDB (host_env host)) addr key"

text \<open>
  \<^verbatim>\<open>SetStorage\<close> returns the status, or the panic of the refund counter, together with
  the host context as the call leaves it. The early return for an unchanged value comes
  before the call of \<^verbatim>\<open>SetState\<close>, as in the source.
\<close>

definition SetStorage ::
  "vars \<Rightarrow> hostContext \<Rightarrow> address \<Rightarrow> hash \<Rightarrow> hash \<Rightarrow> (panic + StorageStatus) \<times> hostContext" where
  "SetStorage V host addr key value =
    (let db = StateDB (host_env host);
         oldValue = GetState db addr key
     in if oldValue = value then (Inr StorageUnchanged, host)
     else
      let current = GetState db addr key;
          original = GetCommittedState db addr key;
          db1 = SetState db addr key value;
          conf = chainConfig (host_env host);
          n = BlockNumber (Context (host_env host));
          hasEIP2200 = IsEnabled (GetEIP2200Transition conf) n;
          hasEIP1884 = IsEnabled (GetEIP1884Transition conf) n;
          hasNetStorageCostEIP = (hasEIP2200 \<and> hasEIP1884)
      in if \<not> hasNetStorageCostEIP then
           (if oldValue = 0 then (Inr StorageAdded, with_db host db1)
            else if value = 0 then
              (Inr StorageDeleted, with_db host (AddRefund db1 (SstoreRefundGas V)))
            else (Inr StorageModified, with_db host db1))
         else
          let resetClearRefund =
                (if hasEIP2200 then SstoreSetGasEIP2200 V - SloadGasEIP2200 V
                 else NetSstoreResetClearRefund V);
              cleanRefund =
                (if hasEIP2200 then SstoreResetGasEIP2200 V - SloadGasEIP2200 V
                 else NetSstoreResetRefund V)
          in if original = current then
               (if original = 0 then (Inr StorageAdded, with_db host db1)
                else if value = 0 then
                  (Inr StorageDeleted, with_db host (AddRefund db1 (NetSstoreClearRefund V)))
                else (Inr StorageModified, with_db host db1))
             else
               (case (if original \<noteq> 0 then
                        (if current = 0 then SubRefund db1 (NetSstoreClearRefund V)
                         else if value = 0 then Inr (AddRefund db1 (NetSstoreClearRefund V))
                         else Inr db1)
                      else Inr db1) of
                  Inl e \<Rightarrow> (Inl e, with_db host db1)
                | Inr db2 \<Rightarrow>
                    (Inr StorageModifiedAgain,
                     with_db host
                       (if original = value then
                          (if original = 0 then AddRefund db2 resetClearRefund
                           else AddRefund db2 cleanRefund)
                        else db2))))"

subsection \<open>hostContext.Selfdestruct\<close>

definition Selfdestruct :: "vars \<Rightarrow> hostContext \<Rightarrow> address \<Rightarrow> address \<Rightarrow> hostContext" where
  "Selfdestruct V host addr beneficiary =
    (let db = StateDB (host_env host);
         db1 = (if \<not> HasSuicided db addr then AddRefund db (SelfdestructRefundGas V) else db);
         db2 = AddBalance db1 beneficiary (GetBalance db1 addr);
         db3 = Suicide db2 addr
     in with_db host db3)"

subsection \<open>hostContext.GetBlockHash\<close>

text \<open>
  Both comparisons are comparisons of \<^verbatim>\<open>int64\<close> values and \<^verbatim>\<open>b-256\<close> is a 64-bit
  subtraction; the hash function of the block context receives \<^verbatim>\<open>uint64(number)\<close>.
\<close>

definition GetBlockHash :: "hostContext \<Rightarrow> int64 \<Rightarrow> hash" where
  "GetBlockHash host number =
    (let b = Int64 (BlockNumber (Context (host_env host)))
     in if (b - 256) \<le>s number \<and> number <s b
        then GetHash (Context (host_env host)) (uint64_of_int64 number)
        else 0)"

subsection \<open>getRevision\<close>

datatype Revision =
  Frontier | Homestead | TangerineWhistle | SpuriousDragon
  | Byzantium | Constantinople | Petersburg | Istanbul

definition getRevision :: "EVM \<Rightarrow> Revision" where
  "getRevision env =
    (let n = BlockNumber (Context env);
         conf = chainConfig env
     in if IsEnabled (GetEIP1884Transition conf) n then Istanbul
        else if IsEnabled (GetEIP1283DisableTransition conf) n then Petersburg
        else if IsEnabled (GetEIP145Transition conf) n then Constantinople
        else if IsEnabled (GetEIP198Transition conf) n then Byzantium
        else if IsEnabled (GetEIP155Transition conf) n then SpuriousDragon
        else if IsEnabled (GetEIP150Transition conf) n then TangerineWhistle
        else if IsEnabled (GetEIP7Transition conf) n then Homestead
        else Frontier)"

subsection \<open>Errors\<close>

text \<open>
  Modelled from the spec: the error values of the engine's calling convention are
  declared outside \<^verbatim>\<open>evmc.go\<close>. The spec distinguishes a "reverted" signal, a
  "generic failure signal" and an "internal-engine-error signal"; \<open>OtherFailure\<close>
  stands for the remaining ordinary failure codes an engine may report.
\<close>

datatype evmc_Error = Failure | Revert | OtherFailure nat | InternalError nat

definition IsInternalError :: "evmc_Error \<Rightarrow> bool" where
  "IsInternalError e = (case e of InternalError _ \<Rightarrow> True | _ \<Rightarrow> False)"

text \<open>
  A Go \<^verbatim>\<open>error\<close> in this file is \<^verbatim>\<open>nil\<close> (\<open>None\<close>) or one of: the two errors of
  package \<^verbatim>\<open>vm\<close> that the file names, any other error of the environment's
  operations (\<open>ErrVM\<close>), an engine error, or the wrapped \<^verbatim>\<open>evmcModuleError\<close>.
\<close>

datatype error =
  ErrExecutionReverted | ErrCodeStoreOutOfGas | ErrVM nat
  | EvmcError evmc_Error | EvmcModuleError

subsection \<open>hostContext.Call\<close>

datatype CallKind =
  Kind_Call | Kind_DelegateCall | Kind_CallCode | Kind_Create | Kind_Create2
  | Kind_Unknown int

text \<open>
  The operations \<^verbatim>\<open>host.env.Call\<close>, \<^verbatim>\<open>StaticCall\<close>, \<^verbatim>\<open>DelegateCall\<close>,
  \<^verbatim>\<open>CallCode\<close>, \<^verbatim>\<open>Create\<close> and \<^verbatim>\<open>Create2\<close> of the environment are defined outside
  \<^verbatim>\<open>evmc.go\<close>: the dispatcher takes them as a parameter. Each returns its results and
  the environment as it leaves it.
\<close>

type_synonym call_result = "(bytes \<times> uint64 \<times> error option) \<times> EVM"
type_synonym create_result = "(bytes \<times> address \<times> uint64 \<times> error option) \<times> EVM"

record EVMops =
  env_StaticCall :: "EVM \<Rightarrow> Contract \<Rightarrow> address \<Rightarrow> bytes \<Rightarrow> uint64 \<Rightarrow> call_result"
  env_Call :: "EVM \<Rightarrow> Contract \<Rightarrow> address \<Rightarrow> bytes \<Rightarrow> uint64 \<Rightarrow> int \<Rightarrow> call_result"
  env_DelegateCall :: "EVM \<Rightarrow> Contract \<Rightarrow> address \<Rightarrow> bytes \<Rightarrow> uint64 \<Rightarrow> call_result"
  env_CallCode :: "EVM \<Rightarrow> Contract \<Rightarrow> address \<Rightarrow> bytes \<Rightarrow> uint64 \<Rightarrow> int \<Rightarrow> call_result"
  env_Create :: "EVM \<Rightarrow> Contract \<Rightarrow> bytes \<Rightarrow> uint64 \<Rightarrow> int \<Rightarrow> create_result"
  env_Create2 :: "EVM \<Rightarrow> Contract \<Rightarrow> bytes \<Rightarrow> uint64 \<Rightarrow> int \<Rightarrow> hash \<Rightarrow> create_result"

text \<open>\<^verbatim>\<open>big.Int.Uint64()\<close>: the low 64 bits of the magnitude.\<close>

definition Uint64 :: "int \<Rightarrow> uint64" where
  "Uint64 x = word_of_int \<bar>x\<bar>"

text \<open>The last step of \<^verbatim>\<open>Call\<close>, "Map errors": a revert becomes \<^verbatim>\<open>evmc.Revert\<close>,
  every other error \<^verbatim>\<open>evmc.Failure\<close>.\<close>

definition map_errors :: "error option \<Rightarrow> error option" where
  "map_errors err =
    (if err = Some ErrExecutionReverted then Some (EvmcError Revert)
     else if err \<noteq> None then Some (EvmcError Failure)
     else None)"

text \<open>
  The result is \<^verbatim>\<open>(output, gasLeft, createAddr, err)\<close> and the host context after the
  call, or the panic for a kind that is none of the five. \<^verbatim>\<open>output\<close> and
  \<^verbatim>\<open>createAddr\<close> are named results: they keep their zero values (\<open>[]\<close> and \<open>0\<close>)
  where no branch assigns them.
\<close>

definition Call ::
  "EVMops \<Rightarrow> hostContext \<Rightarrow> CallKind \<Rightarrow> address \<Rightarrow> address \<Rightarrow> int \<Rightarrow> bytes \<Rightarrow> int64 \<Rightarrow> int64
     \<Rightarrow> bool \<Rightarrow> int \<Rightarrow> panic + ((bytes \<times> int64 \<times> address \<times> error option) \<times> hostContext)" where
  "Call ops host kind destination sender value input gas depth' static salt =
    (let gasU = gas;
         env = host_env host;
         contract = host_contract host;
         finish = (\<lambda>output gasLeftU createAddr err env'.
            Inr ((output, gasLeftU, createAddr, map_errors err), host\<lparr>host_env := env'\<rparr>))
     in case kind of
          Kind_Call \<Rightarrow>
            (if static then
               (case env_StaticCall ops env contract destination input gasU of
                  ((output, gasLeftU, err), env') \<Rightarrow> finish output gasLeftU 0 err env')
             else
               (case env_Call ops env contract destination input gasU value of
                  ((output, gasLeftU, err), env') \<Rightarrow> finish output gasLeftU 0 err env'))
        | Kind_DelegateCall \<Rightarrow>
            (case env_DelegateCall ops env contract destination input gasU of
               ((output, gasLeftU, err), env') \<Rightarrow> finish output gasLeftU 0 err env')
        | Kind_CallCode \<Rightarrow>
            (case env_CallCode ops env contract destination input gasU value of
               ((output, gasLeftU, err), env') \<Rightarrow> finish output gasLeftU 0 err env')
        | Kind_Create \<Rightarrow>
            (case env_Create ops env contract input gasU value of
               ((createOutput, createAddr, gasLeftU, err), env') \<Rightarrow>
                 let isHomestead =
                       IsEnabled (GetEIP7Transition (chainConfig env'))
                         (BlockNumber (Context env'));
                     err1 = (if \<not> isHomestead \<and> err = Some ErrCodeStoreOutOfGas
                             then None else err);
                     output = (if err1 = Some ErrExecutionReverted then createOutput else [])
                 in finish output gasLeftU createAddr err1 env')
        | Kind_Create2 \<Rightarrow>
            (let saltUint256 = (ucast (Uint64 salt) :: hash)
             in case env_Create2 ops env contract input gasU value saltUint256 of
               ((createOutput, createAddr, gasLeftU, err), env') \<Rightarrow>
                 let output = (if err = Some ErrExecutionReverted then createOutput else [])
                 in finish output gasLeftU createAddr err env')
        | Kind_Unknown _ \<Rightarrow> Inl UnknownCallKind)"

subsection \<open>The engine bridge: EVMC.Run\<close>

datatype Capability = CapabilityEVM1 | CapabilityEWASM

text \<open>The loaded engine (\<^verbatim>\<open>instance\<close>) is a parameter of \<^verbatim>\<open>Run\<close> below.\<close>

record EVMC =
  env :: EVM
  cap :: Capability
  readOnly :: bool

text \<open>\<^verbatim>\<open>common.BigToHash\<close>: the low 32 bytes of the magnitude.\<close>

definition BigToHash :: "int \<Rightarrow> hash" where
  "BigToHash x = word_of_int \<bar>x\<bar>"

text \<open>The twelve arguments of \<^verbatim>\<open>instance.Execute\<close>, in order.\<close>

record ExecuteArgs =
  arg_ctx :: hostContext
  arg_rev :: Revision
  arg_kind :: CallKind
  arg_static :: bool
  arg_depth :: int64
  arg_gas :: int64
  arg_destination :: address
  arg_sender :: address
  arg_input :: bytes
  arg_value :: hash
  arg_code :: bytes
  arg_create2Salt :: hash

text \<open>
  An engine invocation returns \<^verbatim>\<open>(output, gasLeft, err)\<close>. While it runs it holds the
  host context, and through it the environment and the bridge: it is a function of the
  bridge state that returns the state it leaves.
\<close>

type_synonym execute = "ExecuteArgs \<Rightarrow> EVMC \<Rightarrow> (bytes \<times> int64 \<times> evmc_Error option) \<times> EVMC"

text \<open>The two deferred functions of \<^verbatim>\<open>Run\<close>. Go runs them in reverse order of their
  \<^verbatim>\<open>defer\<close> statements: the read-only reset (when it was registered) before the
  decrement of the depth.\<close>

definition deferred_depth :: "EVMC \<Rightarrow> EVMC" where
  "deferred_depth evm = evm\<lparr>env := (env evm)\<lparr>depth := depth (env evm) - 1\<rparr>\<rparr>"

definition deferred_readOnly :: "bool \<Rightarrow> EVMC \<Rightarrow> EVMC" where
  "deferred_readOnly registered evm = (if registered then evm\<lparr>readOnly := False\<rparr> else evm)"

text \<open>
  \<^verbatim>\<open>Run\<close> returns \<^verbatim>\<open>(ret, err)\<close>, the contract (whose \<^verbatim>\<open>Gas\<close> it assigns) and the
  bridge state after the deferred functions have run.
\<close>

definition Run ::
  "execute \<Rightarrow> EVMC \<Rightarrow> Contract \<Rightarrow> bytes \<Rightarrow> bool \<Rightarrow> (bytes \<times> error option) \<times> Contract \<times> EVMC" where
  "Run instance_Execute evm contract input readOnly' =
    (let evm1 = evm\<lparr>env := (env evm)\<lparr>depth := depth (env evm) + 1\<rparr>\<rparr>
     in if length (Code contract) = 0 then (([], None), contract, deferred_depth evm1)
     else
      let kind = (if GetCodeSize (StateDB (env evm1)) (Address contract) = 0
                  then Kind_Create else Kind_Call);
          registered = (readOnly' \<and> \<not> readOnly evm1);
          evm2 = (if registered then evm1\<lparr>readOnly := True\<rparr> else evm1);
          args = \<lparr>arg_ctx = \<lparr>host_env = env evm2, host_contract = contract\<rparr>,
                  arg_rev = getRevision (env evm2),
                  arg_kind = kind,
                  arg_static = readOnly evm2,
                  arg_depth = depth (env evm2) - 1,
                  arg_gas = Gas contract,
                  arg_destination = Address contract,
                  arg_sender = Caller contract,
                  arg_input = input,
                  arg_value = BigToHash (Value contract),
                  arg_code = Code contract,
                  arg_create2Salt = 0\<rparr>
      in case instance_Execute args evm2 of
           ((output, gasLeft, err), evm3) \<Rightarrow>
             let contract' = contract\<lparr>Gas := gasLeft\<rparr>;
                 evm4 = deferred_depth (deferred_readOnly registered evm3)
             in if err = Some Revert then ((output, Some ErrExecutionReverted), contract', evm4)
                else (case err of
                        Some evmcError \<Rightarrow>
                          if IsInternalError evmcError
                          then (([], Some EvmcModuleError), contract', evm4)
                          else ((output, Some (EvmcError evmcError)), contract', evm4)
                      | None \<Rightarrow> ((output, None), contract', evm4)))"

subsection \<open>Engines that re-enter the bridge\<close>

text \<open>
  Modelled from the spec: the engine is an external module. Section 2 of the spec gives
  its control flow: "the engine calls back into host context methods (storage, balance,
  call, log, block hash) during execution; host context mutates state accessor and
  forwards nested calls back through the call dispatcher, which may re-enter the engine
  bridge". An engine invocation is therefore a tree: it returns its result
  (\<open>Return\<close>); or branches on its arguments (\<open>Inspect\<close>); or calls a host method
  that acts on the state database and continues with what it observes there
  (\<open>HostOp\<close>); or makes a nested call that re-enters \<^verbatim>\<open>Run\<close> on the same bridge
  with a child frame, a read-only request and the engine's behaviour in the child, and
  continues with the child's result (\<open>Reenter\<close>).
\<close>

datatype Engine =
    Return bytes int64 "evmc_Error option"
  | Inspect "ExecuteArgs \<Rightarrow> Engine"
  | HostOp "StateDB \<Rightarrow> StateDB" "StateDB \<Rightarrow> Engine"
  | Reenter Contract bytes bool Engine "(bytes \<times> error option) \<Rightarrow> Engine"

primrec Execute :: "Engine \<Rightarrow> execute" where
  "Execute (Return output gasLeft err) args evm = ((output, gasLeft, err), evm)"
| "Execute (Inspect k) args evm = Execute (k args) args evm"
| "Execute (HostOp f k) args evm =
     (let evm' = evm\<lparr>env := (env evm)\<lparr>StateDB := f (StateDB (env evm))\<rparr>\<rparr>
      in Execute (k (StateDB (env evm'))) args evm')"
| "Execute (Reenter contract input ro child k) args evm =
     (case Run (Execute child) evm contract input ro of
        (r, contract', evm') \<Rightarrow> Execute (k r) args evm')"

text \<open>
  \<open>force_ro b e\<close> is the engine \<open>e\<close> with the read-only request of every nested call,
  at any depth, replaced by \<open>b\<close>.
\<close>

primrec force_ro :: "bool \<Rightarrow> Engine \<Rightarrow> Engine" where
  "force_ro b (Return out gasLeft err) = Return out gasLeft err"
| "force_ro b (Inspect k) = Inspect (\<lambda>args. force_ro b (k args))"
| "force_ro b (HostOp f k) = HostOp f (\<lambda>db. force_ro b (k db))"
| "force_ro b (Reenter contract input ro child k) =
     Reenter contract input b (force_ro b child) (\<lambda>r. force_ro b (k r))"

subsection \<open>Derived notions\<close>

text \<open>The state database a host context points to, and the three locals of
  \<^verbatim>\<open>SetStorage\<close> that select its mode.\<close>

abbreviation host_db :: "hostContext \<Rightarrow> StateDB" where
  "host_db host \<equiv> StateDB (host_env host)"

definition hasEIP2200 :: "hostContext \<Rightarrow> bool" where
  "hasEIP2200 host =
     IsEnabled (GetEIP2200Transition (chainConfig (host_env host)))
       (BlockNumber (Context (host_env host)))"

definition hasEIP1884 :: "hostContext \<Rightarrow> bool" where
  "hasEIP1884 host =
     IsEnabled (GetEIP1884Transition (chainConfig (host_env host)))
       (BlockNumber (Context (host_env host)))"

definition hasNetStorageCostEIP :: "hostContext \<Rightarrow> bool" where
  "hasNetStorageCostEIP host = (hasEIP2200 host \<and> hasEIP1884 host)"

subsection \<open>Example inputs\<close>

text \<open>
  Concrete inputs on which the theorems below are instantiated. \<open>vars_example\<close> is an
  assignment of the gas constants under which the two pairs of reset refunds differ: the
  source's comments give \<^verbatim>\<open>SstoreSetGasEIP2200 - SloadGasEIP2200\<close> as 19200 and
  \<^verbatim>\<open>SstoreResetGasEIP2200 - SloadGasEIP2200\<close> as 4200.
\<close>

definition vars_example :: vars where
  "vars_example = \<lparr>SstoreRefundGas = 15000, NetSstoreClearRefund = 15000, NetSstoreResetRefund = 4800,
     NetSstoreResetClearRefund = 19800, SstoreSetGasEIP2200 = 20000, SstoreResetGasEIP2200 = 5000,
     SloadGasEIP2200 = 800, SelfdestructRefundGas = 24000\<rparr>"

text \<open>A state database with no storage, no balances and no refund.\<close>

definition db_empty :: StateDB where
  "db_empty = \<lparr>storage = (\<lambda>_ _. 0), committed = (\<lambda>_ _. 0), balance = (\<lambda>_. 0),
     suicided = (\<lambda>_. False), codeSize = (\<lambda>_. 0), refund = 0, setLog = []\<rparr>"

text \<open>Configurations: no transition set; every transition active from height 0; EIP7 from
  height 0 with EIP150 and EIP155 at height 100.\<close>

definition conf_frontier :: ChainConfig where
  "conf_frontier = \<lparr>GetEIP7Transition = None, GetEIP150Transition = None,
     GetEIP155Transition = None, GetEIP161dTransition = None, GetEIP198Transition = None,
     GetEIP145Transition = None, GetEIP1283DisableTransition = None,
     GetEIP1884Transition = None, GetEIP2200Transition = None\<rparr>"

definition conf_istanbul :: ChainConfig where
  "conf_istanbul = \<lparr>GetEIP7Transition = Some 0, GetEIP150Transition = Some 0,
     GetEIP155Transition = Some 0, GetEIP161dTransition = Some 0, GetEIP198Transition = Some 0,
     GetEIP145Transition = Some 0, GetEIP1283DisableTransition = Some 0,
     GetEIP1884Transition = Some 0, GetEIP2200Transition = Some 0\<rparr>"

definition conf_150_155 :: ChainConfig where
  "conf_150_155 = conf_frontier\<lparr>GetEIP7Transition := Some 0,
     GetEIP150Transition := Some 100, GetEIP155Transition := Some 100\<rparr>"

text \<open>A state database in which every slot holds \<open>c\<close>, committed.\<close>

definition db_committed :: "hash \<Rightarrow> StateDB" where
  "db_committed c = db_empty\<lparr>storage := (\<lambda>_ _. c), committed := (\<lambda>_ _. c)\<rparr>"

text \<open>A frame with two bytes of code.\<close>

definition contract_example :: Contract where
  "contract_example = \<lparr>Code = [96, 0], Gas = 100000, Address = 1, Caller = 2, Value = 0\<rparr>"

text \<open>A host context at block height \<open>n\<close>; the hash of block \<open>k\<close> is \<open>k + 1\<close>.\<close>

definition host_example :: "ChainConfig \<Rightarrow> int \<Rightarrow> StateDB \<Rightarrow> hostContext" where
  "host_example conf n db =
     \<lparr>host_env = \<lparr>Context = \<lparr>BlockNumber = n, GetHash = (\<lambda>k. 1 + ucast k)\<rparr>,
                   StateDB = db, chainConfig = conf, depth = 0\<rparr>,
      host_contract = contract_example\<rparr>"

text \<open>A state database in which account 1 holds 50 and account 2 holds 7.\<close>

definition db_funded :: StateDB where
  "db_funded = db_empty\<lparr>balance := (\<lambda>_. 0)(1 := 50, 2 := 7)\<rparr>"

text \<open>A bridge at depth 0 that is not read-only.\<close>

definition evm_example :: EVMC where
  "evm_example = \<lparr>env = host_env (host_example conf_istanbul 10 db_empty),
     cap = CapabilityEVM1, readOnly = False\<rparr>"

text \<open>An engine that makes one nested read-only call, whose engine reverts, then one
  nested call of a frame without code, and returns normally.\<close>

definition engine_example :: Engine where
  "engine_example =
     Reenter contract_example [] True (Return [1] 5 (Some Revert))
       (\<lambda>r. Reenter (contract_example\<lparr>Code := []\<rparr>) [] False (Return [] 0 None)
          (\<lambda>r'. Return (fst r) 7 None))"

text \<open>Environment operations that change nothing and report the given error.\<close>

definition ops_example :: "error option \<Rightarrow> EVMops" where
  "ops_example err =
     \<lparr>env_StaticCall = (\<lambda>e c d i g. (([], g, err), e)),
      env_Call = (\<lambda>e c d i g v. (([], g, err), e)),
      env_DelegateCall = (\<lambda>e c d i g. (([], g, err), e)),
      env_CallCode = (\<lambda>e c d i g v. (([], g, err), e)),
      env_Create = (\<lambda>e c i g v. (([1, 2, 3], 9, g, err), e)),
      env_Create2 = (\<lambda>e c i g v s. (([1, 2, 3], 9, g, err), e))\<rparr>"

section \<open>Properties\<close>

subsection \<open>Facts about the state accessor\<close>

lemma host_db_with_db [simp]: "host_db (with_db host db) = db"
  by (simp add: with_db_def)

lemma hasNetStorageCostEIP_with_db [simp]: "hasNetStorageCostEIP (with_db host db) = hasNetStorageCostEIP host"
  by (simp add: with_db_def hasNetStorageCostEIP_def hasEIP2200_def hasEIP1884_def)

lemma refund_SetState [simp]: "refund (SetState db a k v) = refund db"
  by (simp add: SetState_def)

lemma refund_AddRefund [simp]: "refund (AddRefund db g) = refund db + unat g"
  by (simp add: AddRefund_def)

lemma GetState_SetState [simp]: "GetState (SetState db a k v) a k = v"
  by (simp add: SetState_def GetState_def)

lemma GetState_AddRefund [simp]: "GetState (AddRefund db g) a k = GetState db a k"
  by (simp add: AddRefund_def GetState_def)

lemma GetCommittedState_SetState [simp]:
  "GetCommittedState (SetState db a k v) a' k' = GetCommittedState db a' k'"
  by (simp add: SetState_def GetCommittedState_def)

lemma GetCommittedState_AddRefund [simp]:
  "GetCommittedState (AddRefund db g) a k = GetCommittedState db a k"
  by (simp add: AddRefund_def GetCommittedState_def)

lemma SubRefund_SetState_AddRefund:
  "SubRefund (SetState (AddRefund db g) a k v) g = Inr (SetState db a k v)"
  by (simp add: SubRefund_def AddRefund_def SetState_def)

subsection \<open>The branches of SetStorage\<close>

text \<open>
  One equation for each region of the decision tree: the value is unchanged; the
  legacy rules apply; net metering applies to a slot not yet written in this
  transaction; net metering applies to a slot already written.
\<close>

lemma SetStorage_unchanged:
  "GetState (host_db host) addr key = val \<Longrightarrow>
   SetStorage V host addr key val = (Inr StorageUnchanged, host)"
  by (simp add: SetStorage_def)

lemma SetStorage_legacy:
  assumes "\<not> hasNetStorageCostEIP host" and "GetState (host_db host) addr key \<noteq> val"
  shows "SetStorage V host addr key val =
     (if GetState (host_db host) addr key = 0 then
        (Inr StorageAdded, with_db host (SetState (host_db host) addr key val))
      else if val = 0 then
        (Inr StorageDeleted,
         with_db host (AddRefund (SetState (host_db host) addr key val) (SstoreRefundGas V)))
      else (Inr StorageModified, with_db host (SetState (host_db host) addr key val)))"
  using assms unfolding SetStorage_def Let_def hasNetStorageCostEIP_def hasEIP2200_def hasEIP1884_def
  by auto

lemma SetStorage_net_clean:
  assumes "hasNetStorageCostEIP host" and "GetState (host_db host) addr key \<noteq> val"
    and "GetCommittedState (host_db host) addr key = GetState (host_db host) addr key"
  shows "SetStorage V host addr key val =
     (if GetState (host_db host) addr key = 0 then
        (Inr StorageAdded, with_db host (SetState (host_db host) addr key val))
      else if val = 0 then
        (Inr StorageDeleted,
         with_db host (AddRefund (SetState (host_db host) addr key val) (NetSstoreClearRefund V)))
      else (Inr StorageModified, with_db host (SetState (host_db host) addr key val)))"
  using assms unfolding SetStorage_def Let_def hasNetStorageCostEIP_def hasEIP2200_def hasEIP1884_def
  by auto

lemma SetStorage_net_dirty:
  assumes "hasNetStorageCostEIP host" and "GetState (host_db host) addr key \<noteq> val"
    and "GetCommittedState (host_db host) addr key \<noteq> GetState (host_db host) addr key"
  shows "SetStorage V host addr key val =
     (let current = GetState (host_db host) addr key;
          original = GetCommittedState (host_db host) addr key;
          db1 = SetState (host_db host) addr key val
      in case (if original \<noteq> 0 then
                 (if current = 0 then SubRefund db1 (NetSstoreClearRefund V)
                  else if val = 0 then Inr (AddRefund db1 (NetSstoreClearRefund V))
                  else Inr db1)
               else Inr db1) of
           Inl e \<Rightarrow> (Inl e, with_db host db1)
         | Inr db2 \<Rightarrow>
             (Inr StorageModifiedAgain,
              with_db host
                (if original = val then
                   (if original = 0
                    then AddRefund db2 (SstoreSetGasEIP2200 V - SloadGasEIP2200 V)
                    else AddRefund db2 (SstoreResetGasEIP2200 V - SloadGasEIP2200 V))
                 else db2)))"
  using assms unfolding SetStorage_def Let_def hasNetStorageCostEIP_def hasEIP2200_def hasEIP1884_def
  by auto

lemma SetStorage_panic:
  "fst (SetStorage V host addr key val) = Inl e \<Longrightarrow> e = RefundBelowZero"
  unfolding SetStorage_def Let_def
  by (auto simp: SubRefund_def split: if_splits sum.splits)

lemma SetStorage_legacy_status:
  assumes "\<not> hasNetStorageCostEIP host"
  shows "fst (SetStorage V host addr key val)
     \<in> {Inr StorageUnchanged, Inr StorageAdded, Inr StorageDeleted, Inr StorageModified}"
proof (cases "GetState (host_db host) addr key = val")
  case True
  then show ?thesis by (simp add: SetStorage_unchanged)
next
  case False
  then show ?thesis using assms by (simp add: SetStorage_legacy)
qed

lemma SetStorage_reset_refund:
  assumes net: "hasNetStorageCostEIP host"
    and orig: "GetCommittedState (host_db host) addr key = val"
    and cur: "GetState (host_db host) addr key \<noteq> val"
    and ok: "fst (SetStorage V host addr key val) = Inr st"
  shows "st = StorageModifiedAgain \<and>
     refund (host_db (snd (SetStorage V host addr key val)))
       + (if val \<noteq> 0 \<and> GetState (host_db host) addr key = 0
          then unat (NetSstoreClearRefund V) else 0)
     = refund (host_db host)
       + (if val = 0 then unat (SstoreSetGasEIP2200 V - SloadGasEIP2200 V)
          else unat (SstoreResetGasEIP2200 V - SloadGasEIP2200 V))"
proof -
  have ne: "GetCommittedState (host_db host) addr key \<noteq> GetState (host_db host) addr key"
    using orig cur by simp
  show ?thesis
    using ok orig cur
    unfolding SetStorage_net_dirty [OF net cur ne] Let_def
    by (auto simp: SubRefund_def split: if_splits)
qed

lemma SetStorage_ignores_NetSstoreReset:
  "SetStorage (V\<lparr>NetSstoreResetRefund := a, NetSstoreResetClearRefund := b\<rparr>) host addr key val
     = SetStorage V host addr key val"
  unfolding SetStorage_def Let_def by (simp cong: sum.case_cong if_cong)

lemma SetStorage_setLog:
  "setLog (host_db (snd (SetStorage V host addr key val))) =
     (if val = GetState (host_db host) addr key then setLog (host_db host)
      else (addr, key, val) # setLog (host_db host))"
  unfolding SetStorage_def Let_def
  by (simp add: SetState_def AddRefund_def SubRefund_def with_db_def split: sum.splits)

lemma SetStorage_GetState:
  "GetState (host_db (snd (SetStorage V host addr key val))) addr key = val"
  unfolding SetStorage_def Let_def
  by (simp add: SetState_def AddRefund_def SubRefund_def with_db_def GetState_def
      split: sum.splits)

lemma SetStorage_Unchanged_iff:
  "fst (SetStorage V host addr key val) = Inr StorageUnchanged
     \<longleftrightarrow> val = GetState (host_db host) addr key"
  unfolding SetStorage_def Let_def
  by (auto split: sum.splits)

subsection \<open>Net-metering reset (C1)\<close>

text \<open>
  Claim C1. In net-metering mode, take a slot whose committed value and current value
  are both \<open>c\<close>, and write \<open>x\<close> and then \<open>c\<close> again, for any \<open>x \<noteq> c\<close>.
  Neither write panics, the second returns \<^verbatim>\<open>StorageModifiedAgain\<close>, and the refund
  counter ends higher than it started by exactly the reset refund for the class of
  \<open>c\<close>: \<^verbatim>\<open>resetClearRefund\<close> (reset to a nonexistent slot) when \<open>c\<close> is zero,
  \<^verbatim>\<open>cleanRefund\<close> (reset to an existing slot) when it is not. When \<open>c\<close> is nonzero
  and \<open>x\<close> is zero, the first write grants the clear refund and the second write both
  takes it back and grants the reset refund: the two adjustments fire on the same write
  and their sum is the net amount.
\<close>

theorem net_metering_reset:
  assumes net: "hasNetStorageCostEIP host"
    and committed: "GetCommittedState (host_db host) addr key = c"
    and current: "GetState (host_db host) addr key = c"
    and x: "x \<noteq> c"
  shows "(case SetStorage V host addr key x of
            (st1, host1) \<Rightarrow>
              (case SetStorage V host1 addr key c of
                 (st2, host2) \<Rightarrow>
                   st1 = Inr (if c = 0 then StorageAdded
                              else if x = 0 then StorageDeleted else StorageModified) \<and>
                   st2 = Inr StorageModifiedAgain \<and>
                   refund (host_db host2) =
                     refund (host_db host) +
                       (if c = 0 then unat (SstoreSetGasEIP2200 V - SloadGasEIP2200 V)
                        else unat (SstoreResetGasEIP2200 V - SloadGasEIP2200 V)) \<and>
                   (c \<noteq> 0 \<and> x = 0 \<longrightarrow>
                      refund (host_db host1) = refund (host_db host) + unat (NetSstoreClearRefund V) \<and>
                      refund (host_db host2) =
                        refund (host_db host1) - unat (NetSstoreClearRefund V)
                          + unat (SstoreResetGasEIP2200 V - SloadGasEIP2200 V))))"
proof -
  let ?db = "host_db host"
  let ?db1 = "SetState ?db addr key x"
  have first: "SetStorage V host addr key x =
     (if c = 0 then (Inr StorageAdded, with_db host ?db1)
      else if x = 0 then
        (Inr StorageDeleted, with_db host (AddRefund ?db1 (NetSstoreClearRefund V)))
      else (Inr StorageModified, with_db host ?db1))"
    using SetStorage_net_clean [of host addr key x V] net committed current x by simp
  show ?thesis
  proof (cases "c = 0")
    case True
    let ?h1 = "with_db host ?db1"
    have "SetStorage V ?h1 addr key c =
        (Inr StorageModifiedAgain,
         with_db ?h1 (AddRefund (SetState ?db1 addr key c)
            (SstoreSetGasEIP2200 V - SloadGasEIP2200 V)))"
      using SetStorage_net_dirty [of ?h1 addr key c V] net committed x True
      by (simp add: Let_def)
    with first True show ?thesis by simp
  next
    case False
    show ?thesis
    proof (cases "x = 0")
      case True
      let ?h1 = "with_db host (AddRefund ?db1 (NetSstoreClearRefund V))"
      have "SetStorage V ?h1 addr key c =
          (Inr StorageModifiedAgain,
           with_db ?h1 (AddRefund (SetState ?db1 addr key c)
              (SstoreResetGasEIP2200 V - SloadGasEIP2200 V)))"
        using SetStorage_net_dirty [of ?h1 addr key c V] net committed x True False
        by (simp add: Let_def SubRefund_SetState_AddRefund)
      with first True False show ?thesis by simp
    next
      case xnz: False
      let ?h1 = "with_db host ?db1"
      have "SetStorage V ?h1 addr key c =
          (Inr StorageModifiedAgain,
           with_db ?h1 (AddRefund (SetState ?db1 addr key c)
              (SstoreResetGasEIP2200 V - SloadGasEIP2200 V)))"
        using SetStorage_net_dirty [of ?h1 addr key c V] net committed x xnz False
        by (simp add: Let_def)
      with first xnz False show ?thesis by simp
    qed
  qed
qed

text \<open>
  The hypotheses hold for a slot committed at 7 under a configuration with every
  transition active: writing 0 and then 7 leaves a refund of 5000 - 800 = 4200.
\<close>

theorem net_metering_reset_witness:
  "hasNetStorageCostEIP (host_example conf_istanbul 10 (db_committed 7)) \<and>
   (0 :: hash) \<noteq> 7 \<and>
   refund (host_db (snd (SetStorage vars_example
     (snd (SetStorage vars_example
        (host_example conf_istanbul 10 (db_committed 7)) 1 2 0))
     1 2 7))) = 4200"
  using net_metering_reset [where host = "host_example conf_istanbul 10 (db_committed 7)"
      and V = vars_example and addr = 1 and key = 2 and c = 7 and x = 0]
  by (simp add: hasNetStorageCostEIP_def hasEIP2200_def hasEIP1884_def host_example_def
      conf_istanbul_def IsEnabled_def db_empty_def db_committed_def GetState_def GetCommittedState_def
      SetState_def vars_example_def split: prod.splits)

subsection \<open>Stack discipline of Run (C2)\<close>

text \<open>
  The deferred functions undo what \<^verbatim>\<open>Run\<close> did on entry, whatever the engine returns,
  as long as the engine itself leaves the depth and the flag as it found them. An engine
  touches them only by re-entering \<^verbatim>\<open>Run\<close>, so the property holds for every engine,
  by induction on its calls.
\<close>

lemma deferred_simps [simp]:
  "depth (env (deferred_depth s)) = depth (env s) - 1"
  "readOnly (deferred_depth s) = readOnly s"
  "depth (env (deferred_readOnly b s)) = depth (env s)"
  "readOnly (deferred_readOnly b s) = (if b then False else readOnly s)"
  by (simp_all add: deferred_depth_def deferred_readOnly_def)

lemma Run_frame:
  assumes "\<And>args s. depth (env (snd (exec args s))) = depth (env s) \<and>
       readOnly (snd (exec args s)) = readOnly s"
  shows "depth (env (snd (snd (Run exec evm contract input ro)))) = depth (env evm) \<and>
         readOnly (snd (snd (Run exec evm contract input ro))) = readOnly evm"
proof (cases "length (Code contract) = 0")
  case True
  then show ?thesis by (simp add: Run_def)
next
  case False
  define evm1 where "evm1 = evm\<lparr>env := (env evm)\<lparr>depth := depth (env evm) + 1\<rparr>\<rparr>"
  define registered where "registered = (ro \<and> \<not> readOnly evm1)"
  define evm2 where "evm2 = (if registered then evm1\<lparr>readOnly := True\<rparr> else evm1)"
  define args where "args = \<lparr>arg_ctx = \<lparr>host_env = env evm2, host_contract = contract\<rparr>,
                  arg_rev = getRevision (env evm2),
                  arg_kind = (if GetCodeSize (StateDB (env evm1)) (Address contract) = 0
                  then Kind_Create else Kind_Call),
                  arg_static = readOnly evm2,
                  arg_depth = depth (env evm2) - 1,
                  arg_gas = Gas contract,
                  arg_destination = Address contract,
                  arg_sender = Caller contract,
                  arg_input = input,
                  arg_value = BigToHash (Value contract),
                  arg_code = Code contract,
                  arg_create2Salt = 0\<rparr>"
  obtain out gasLeft err evm3 where ex: "exec args evm2 = ((out, gasLeft, err), evm3)"
    by (metis prod_cases3 surj_pair)
  from assms [of args evm2] ex
  have d3: "depth (env evm3) = depth (env evm2)" and r3: "readOnly evm3 = readOnly evm2"
    by simp_all
  have d2: "depth (env evm2) = depth (env evm) + 1"
    by (simp add: evm2_def evm1_def)
  have r2: "readOnly evm2 = (ro \<or> readOnly evm)"
    by (auto simp add: evm2_def evm1_def registered_def)
  have reg: "registered = (ro \<and> \<not> readOnly evm)"
    by (simp add: registered_def evm1_def)
  let ?evm4 = "deferred_depth (deferred_readOnly registered evm3)"
  have "snd (snd (Run exec evm contract input ro)) = ?evm4"
    using False ex
    unfolding Run_def Let_def evm1_def [symmetric] registered_def [symmetric]
      evm2_def [symmetric] args_def [symmetric]
    by (simp split: option.splits)
  moreover have "depth (env ?evm4) = depth (env evm)"
    using d3 d2 by simp
  moreover have "readOnly ?evm4 = readOnly evm"
    using r3 r2 reg by auto
  ultimately show ?thesis by simp
qed

lemma Execute_frame:
  "depth (env (snd (Execute e args s))) = depth (env s) \<and>
   readOnly (snd (Execute e args s)) = readOnly s"
proof (induction e arbitrary: args s)
  case (Return out gasLeft err)
  show ?case by simp
next
  case (Inspect k)
  then show ?case by simp
next
  case (HostOp f k)
  then show ?case by (simp add: Let_def)
next
  case (Reenter contract input ro child k)
  obtain r contract' evm' where run: "Run (Execute child) s contract input ro = (r, contract', evm')"
    by (metis surj_pair)
  from Run_frame [of "Execute child" s contract input ro] Reenter.IH(1) run
  have "depth (env evm') = depth (env s) \<and> readOnly evm' = readOnly s"
    by simp
  moreover have "depth (env (snd (Execute (k r) args evm'))) = depth (env evm') \<and>
      readOnly (snd (Execute (k r) args evm')) = readOnly evm'"
    by (rule Reenter.IH(2)) simp
  ultimately show ?case
    using run by simp
qed

lemma Run_already_readOnly:
  "readOnly evm \<Longrightarrow> Run exec evm contract input ro = Run exec evm contract input ro'"
  by (simp add: Run_def Let_def)

lemma Run_engine_args:
  assumes "\<And>args s. arg_static args = (ro \<or> readOnly evm) \<Longrightarrow>
      readOnly s = (ro \<or> readOnly evm) \<Longrightarrow> exec1 args s = exec2 args s"
  shows "Run exec1 evm contract input ro = Run exec2 evm contract input ro"
proof -
  define evm1 where "evm1 = evm\<lparr>env := (env evm)\<lparr>depth := depth (env evm) + 1\<rparr>\<rparr>"
  define registered where "registered = (ro \<and> \<not> readOnly evm1)"
  define evm2 where "evm2 = (if registered then evm1\<lparr>readOnly := True\<rparr> else evm1)"
  define args where "args = \<lparr>arg_ctx = \<lparr>host_env = env evm2, host_contract = contract\<rparr>,
                  arg_rev = getRevision (env evm2),
                  arg_kind = (if GetCodeSize (StateDB (env evm1)) (Address contract) = 0
                  then Kind_Create else Kind_Call),
                  arg_static = readOnly evm2,
                  arg_depth = depth (env evm2) - 1,
                  arg_gas = Gas contract,
                  arg_destination = Address contract,
                  arg_sender = Caller contract,
                  arg_input = input,
                  arg_value = BigToHash (Value contract),
                  arg_code = Code contract,
                  arg_create2Salt = 0\<rparr>"
  have r2: "readOnly evm2 = (ro \<or> readOnly evm)"
    by (auto simp add: evm2_def evm1_def registered_def)
  then have "arg_static args = (ro \<or> readOnly evm)"
    by (simp add: args_def)
  with r2 have "exec1 args evm2 = exec2 args evm2"
    by (rule assms [rotated])
  then show ?thesis
    unfolding Run_def Let_def evm1_def [symmetric] registered_def [symmetric]
      evm2_def [symmetric] args_def [symmetric]
    by simp
qed

lemma Execute_force_ro:
  "readOnly s \<Longrightarrow> Execute (force_ro b e) args s = Execute e args s"
proof (induction e arbitrary: args s)
  case (Return out gasLeft err)
  show ?case by simp
next
  case (Inspect k)
  then show ?case by simp
next
  case (HostOp f k)
  then show ?case by (simp add: Let_def)
next
  case (Reenter contract input ro child k)
  have "Run (Execute (force_ro b child)) s contract input b
      = Run (Execute (force_ro b child)) s contract input ro"
    using Reenter.prems by (rule Run_already_readOnly)
  also have "\<dots> = Run (Execute child) s contract input ro"
    using Reenter.prems by (intro Run_engine_args Reenter.IH(1)) simp
  finally have run: "Run (Execute (force_ro b child)) s contract input b
      = Run (Execute child) s contract input ro" .
  obtain r contract' evm' where res: "Run (Execute child) s contract input ro = (r, contract', evm')"
    by (metis surj_pair)
  from Run_frame [of "Execute child" s contract input ro] Execute_frame res Reenter.prems
  have "readOnly evm'"
    by simp
  then have "Execute (force_ro b (k r)) args evm' = Execute (k r) args evm'"
    by (intro Reenter.IH(2)) simp_all
  with run res show ?case by simp
qed

text \<open>
  Claim C2. For every engine, frame, input and read-only request, \<^verbatim>\<open>Run\<close> leaves the
  call depth and the read-only flag of the bridge at their values before the call. The
  engine's result is arbitrary, so this covers the return for empty code, a reverting
  engine, an internal engine error and a normal return. The engine is invoked with a
  static argument and a bridge flag equal to "requested or already set": \<^verbatim>\<open>Run\<close>
  consults the engine only there. When the bridge is already read-only the request makes
  no difference at all, and neither do the requests of the nested calls at any depth
  (\<open>force_ro\<close>): no descendant can clear the flag an ancestor set.
\<close>

theorem Run_restores:
  "depth (env (snd (snd (Run (Execute engine) evm contract input ro)))) = depth (env evm) \<and>
   readOnly (snd (snd (Run (Execute engine) evm contract input ro))) = readOnly evm \<and>
   ((\<forall>args s. arg_static args = (ro \<or> readOnly evm) \<and> readOnly s = (ro \<or> readOnly evm)
        \<longrightarrow> exec args s = Execute engine args s) \<longrightarrow>
      Run exec evm contract input ro = Run (Execute engine) evm contract input ro) \<and>
   (readOnly evm \<longrightarrow>
      Run (Execute engine) evm contract input ro
        = Run (Execute engine) evm contract input (\<not> ro) \<and>
      Run (Execute (force_ro b engine)) evm contract input ro
        = Run (Execute engine) evm contract input ro)"
proof (intro conjI impI)
  show "depth (env (snd (snd (Run (Execute engine) evm contract input ro)))) = depth (env evm)"
    using Run_frame [of "Execute engine" evm contract input ro] Execute_frame
    by simp
  show "readOnly (snd (snd (Run (Execute engine) evm contract input ro))) = readOnly evm"
    using Run_frame [of "Execute engine" evm contract input ro] Execute_frame
    by simp
next
  assume "\<forall>args s. arg_static args = (ro \<or> readOnly evm) \<and> readOnly s = (ro \<or> readOnly evm)
        \<longrightarrow> exec args s = Execute engine args s"
  then show "Run exec evm contract input ro = Run (Execute engine) evm contract input ro"
    by (intro Run_engine_args) simp
next
  assume "readOnly evm"
  then show "Run (Execute engine) evm contract input ro
        = Run (Execute engine) evm contract input (\<not> ro)"
    by (rule Run_already_readOnly)
next
  assume ro: "readOnly evm"
  show "Run (Execute (force_ro b engine)) evm contract input ro
        = Run (Execute engine) evm contract input ro"
    by (intro Run_engine_args Execute_force_ro) (simp add: ro)
qed

text \<open>
  The example engine makes a nested read-only call that reverts and a nested call of a
  frame without code, and then returns; the second engine reports an internal error.
\<close>

theorem Run_restores_witness:
  "fst (Run (Execute engine_example) evm_example contract_example [] True) = ([1], None) \<and>
   depth (env (snd (snd (Run (Execute engine_example) evm_example contract_example [] True))))
     = depth (env evm_example) \<and>
   \<not> readOnly (snd (snd (Run (Execute engine_example) evm_example contract_example [] True))) \<and>
   fst (Run (Execute (Return [1] 5 (Some (InternalError 3)))) evm_example contract_example [] True)
     = ([], Some EvmcModuleError) \<and>
   depth (env (snd (snd (Run (Execute (Return [1] 5 (Some (InternalError 3)))) evm_example
      contract_example [] True)))) = depth (env evm_example) \<and>
   readOnly (evm_example\<lparr>readOnly := True\<rparr>) \<and>
   Run (Execute engine_example) (evm_example\<lparr>readOnly := True\<rparr>) contract_example [] False
     = Run (Execute engine_example) (evm_example\<lparr>readOnly := True\<rparr>) contract_example [] True \<and>
   readOnly (snd (snd (Run (Execute engine_example) (evm_example\<lparr>readOnly := True\<rparr>)
      contract_example [] False)))"
proof -
  have out: "fst (Run (Execute engine_example) evm_example contract_example [] True) = ([1], None)"
    by (simp add: Run_def Let_def engine_example_def contract_example_def IsInternalError_def)
  have internal: "fst (Run (Execute (Return [1] 5 (Some (InternalError 3)))) evm_example
      contract_example [] True) = ([], Some EvmcModuleError)"
    by (simp add: Run_def Let_def contract_example_def IsInternalError_def)
  have ro: "\<not> readOnly evm_example" "readOnly (evm_example\<lparr>readOnly := True\<rparr>)"
    by (simp_all add: evm_example_def)
  show ?thesis
    using out internal ro
      Run_restores [where engine = engine_example and evm = evm_example
        and contract = contract_example and input = "[]" and ro = True
        and exec = "Execute engine_example" and b = True]
      Run_restores [where engine = "Return [1] 5 (Some (InternalError 3))" and evm = evm_example
        and contract = contract_example and input = "[]" and ro = True
        and exec = "Execute (Return [1] 5 (Some (InternalError 3)))" and b = True]
      Run_restores [where engine = engine_example and evm = "evm_example\<lparr>readOnly := True\<rparr>"
        and contract = contract_example and input = "[]" and ro = False
        and exec = "Execute engine_example" and b = True]
    by auto
qed

subsection \<open>Create variants of Call (C3)\<close>

lemma Call_Create:
  assumes "env_Create ops (host_env host) (host_contract host) input gas val
             = ((createOutput, createAddr, gasLeftU, err), env')"
  shows "Call ops host Kind_Create destination sender val input gas d static salt =
     (let isHomestead = IsEnabled (GetEIP7Transition (chainConfig env'))
                          (BlockNumber (Context env'));
          err1 = (if \<not> isHomestead \<and> err = Some ErrCodeStoreOutOfGas then None else err)
      in Inr ((if err1 = Some ErrExecutionReverted then createOutput else [],
               gasLeftU, createAddr, map_errors err1),
              host\<lparr>host_env := env'\<rparr>))"
  using assms by (simp add: Call_def Let_def)

lemma Call_Create2:
  assumes "env_Create2 ops (host_env host) (host_contract host) input gas val
             (ucast (Uint64 salt)) = ((createOutput, createAddr, gasLeftU, err), env')"
  shows "Call ops host Kind_Create2 destination sender val input gas d static salt =
     Inr ((if err = Some ErrExecutionReverted then createOutput else [],
           gasLeftU, createAddr, map_errors err),
          host\<lparr>host_env := env'\<rparr>)"
  using assms by (simp add: Call_def Let_def)

text \<open>
  Claim C3 as stated fails for \<^verbatim>\<open>Create2\<close>: before the Homestead transition, an
  \<^verbatim>\<open>ErrCodeStoreOutOfGas\<close> from \<^verbatim>\<open>Create2\<close> is not suppressed, it is reported as
  \<^verbatim>\<open>evmc.Failure\<close>.
\<close>

theorem Call_create_counterexample:
  "\<not> IsEnabled (GetEIP7Transition (chainConfig (host_env (host_example conf_frontier 10 db_empty))))
       (BlockNumber (Context (host_env (host_example conf_frontier 10 db_empty)))) \<and>
   env_Create2 (ops_example (Some ErrCodeStoreOutOfGas))
       (host_env (host_example conf_frontier 10 db_empty)) contract_example [] 100 0 0
     = (([1, 2, 3], 9, 100, Some ErrCodeStoreOutOfGas),
        host_env (host_example conf_frontier 10 db_empty)) \<and>
   Call (ops_example (Some ErrCodeStoreOutOfGas)) (host_example conf_frontier 10 db_empty)
       Kind_Create2 0 0 0 [] 100 0 False 0
     = Inr (([], 100, 9, Some (EvmcError Failure)), host_example conf_frontier 10 db_empty)"
  by (simp add: Call_def Let_def ops_example_def host_example_def conf_frontier_def
      IsEnabled_def map_errors_def Uint64_def)

text \<open>
  Claim C3, amended. For kind \<^verbatim>\<open>Create\<close>, when the Homestead transition (EIP7) is not
  enabled, an \<^verbatim>\<open>ErrCodeStoreOutOfGas\<close> from the underlying create operation is
  suppressed and the dispatcher returns no error (and no output). Kind \<^verbatim>\<open>Create2\<close> has
  no such suppression. For both kinds, an \<^verbatim>\<open>ErrExecutionReverted\<close> becomes
  \<^verbatim>\<open>evmc.Revert\<close> and the output of the create operation is returned; every other
  error that remains becomes \<^verbatim>\<open>evmc.Failure\<close> and the output is empty.
\<close>

theorem Call_create_errors:
  assumes create: "env_Create ops (host_env host) (host_contract host) input gas val
             = ((createOutput, createAddr, gasLeftU, err), env')"
    and create2: "env_Create2 ops (host_env host) (host_contract host) input gas val
             (ucast (Uint64 salt)) = ((createOutput2, createAddr2, gasLeftU2, err2), env2)"
  shows "(\<not> IsEnabled (GetEIP7Transition (chainConfig env')) (BlockNumber (Context env')) \<and>
          err = Some ErrCodeStoreOutOfGas \<longrightarrow>
            Call ops host Kind_Create destination sender val input gas d static salt
              = Inr (([], gasLeftU, createAddr, None), host\<lparr>host_env := env'\<rparr>)) \<and>
         (err = Some ErrExecutionReverted \<longrightarrow>
            Call ops host Kind_Create destination sender val input gas d static salt
              = Inr ((createOutput, gasLeftU, createAddr, Some (EvmcError Revert)),
                     host\<lparr>host_env := env'\<rparr>)) \<and>
         (err \<noteq> None \<and> err \<noteq> Some ErrExecutionReverted \<and>
          (err = Some ErrCodeStoreOutOfGas \<longrightarrow>
             IsEnabled (GetEIP7Transition (chainConfig env')) (BlockNumber (Context env'))) \<longrightarrow>
            Call ops host Kind_Create destination sender val input gas d static salt
              = Inr (([], gasLeftU, createAddr, Some (EvmcError Failure)),
                     host\<lparr>host_env := env'\<rparr>)) \<and>
         (err2 = Some ErrExecutionReverted \<longrightarrow>
            Call ops host Kind_Create2 destination sender val input gas d static salt
              = Inr ((createOutput2, gasLeftU2, createAddr2, Some (EvmcError Revert)),
                     host\<lparr>host_env := env2\<rparr>)) \<and>
         (err2 \<noteq> None \<and> err2 \<noteq> Some ErrExecutionReverted \<longrightarrow>
            Call ops host Kind_Create2 destination sender val input gas d static salt
              = Inr (([], gasLeftU2, createAddr2, Some (EvmcError Failure)),
                     host\<lparr>host_env := env2\<rparr>))"
  unfolding Call_Create [OF create] Call_Create2 [OF create2] Let_def
  by (auto simp: map_errors_def)

theorem Call_create_errors_witness:
  "\<not> IsEnabled (GetEIP7Transition (chainConfig (host_env (host_example conf_frontier 10 db_empty))))
       (BlockNumber (Context (host_env (host_example conf_frontier 10 db_empty)))) \<and>
   Call (ops_example (Some ErrCodeStoreOutOfGas)) (host_example conf_frontier 10 db_empty)
       Kind_Create 0 0 0 [] 100 0 False 0
     = Inr (([], 100, 9, None), host_example conf_frontier 10 db_empty) \<and>
   Call (ops_example (Some ErrCodeStoreOutOfGas)) (host_example conf_istanbul 10 db_empty)
       Kind_Create 0 0 0 [] 100 0 False 0
     = Inr (([], 100, 9, Some (EvmcError Failure)), host_example conf_istanbul 10 db_empty) \<and>
   Call (ops_example (Some ErrExecutionReverted)) (host_example conf_frontier 10 db_empty)
       Kind_Create 0 0 0 [] 100 0 False 0
     = Inr (([1, 2, 3], 100, 9, Some (EvmcError Revert)), host_example conf_frontier 10 db_empty) \<and>
   Call (ops_example (Some ErrExecutionReverted)) (host_example conf_frontier 10 db_empty)
       Kind_Create2 0 0 0 [] 100 0 False 0
     = Inr (([1, 2, 3], 100, 9, Some (EvmcError Revert)), host_example conf_frontier 10 db_empty) \<and>
   Call (ops_example (Some (ErrVM 1))) (host_example conf_frontier 10 db_empty)
       Kind_Create2 0 0 0 [] 100 0 False 0
     = Inr (([], 100, 9, Some (EvmcError Failure)), host_example conf_frontier 10 db_empty)"
proof -
  have c1: "env_Create (ops_example e) (host_env h) (host_contract h) [] 100 0
      = (([1, 2, 3], 9, 100, e), host_env h)" for e and h :: hostContext
    by (simp add: ops_example_def)
  have c2: "env_Create2 (ops_example e) (host_env h) (host_contract h) [] 100 0
      (ucast (Uint64 0)) = (([1, 2, 3], 9, 100, e), host_env h)" for e and h :: hostContext
    by (simp add: ops_example_def)
  have frontier: "\<not> IsEnabled (GetEIP7Transition (chainConfig (host_env
      (host_example conf_frontier 10 db_empty))))
       (BlockNumber (Context (host_env (host_example conf_frontier 10 db_empty))))"
    by (simp add: host_example_def conf_frontier_def IsEnabled_def)
  have istanbul: "IsEnabled (GetEIP7Transition (chainConfig (host_env
      (host_example conf_istanbul 10 db_empty))))
       (BlockNumber (Context (host_env (host_example conf_istanbul 10 db_empty))))"
    by (simp add: host_example_def conf_istanbul_def IsEnabled_def)
  have same: "h\<lparr>host_env := host_env h\<rparr> = h" for h :: hostContext
    by simp
  show ?thesis
    using frontier istanbul
      Call_create_errors [OF c1 [of "Some ErrCodeStoreOutOfGas" "host_example conf_frontier 10 db_empty"]
        c2 [of "Some ErrCodeStoreOutOfGas" "host_example conf_frontier 10 db_empty"],
        where destination = 0 and sender = 0 and d = 0 and static = False]
      Call_create_errors [OF c1 [of "Some ErrCodeStoreOutOfGas" "host_example conf_istanbul 10 db_empty"]
        c2 [of "Some ErrCodeStoreOutOfGas" "host_example conf_istanbul 10 db_empty"],
        where destination = 0 and sender = 0 and d = 0 and static = False]
      Call_create_errors [OF c1 [of "Some ErrExecutionReverted" "host_example conf_frontier 10 db_empty"]
        c2 [of "Some ErrExecutionReverted" "host_example conf_frontier 10 db_empty"],
        where destination = 0 and sender = 0 and d = 0 and static = False]
      Call_create_errors [OF c1 [of "Some (ErrVM 1)" "host_example conf_frontier 10 db_empty"]
        c2 [of "Some (ErrVM 1)" "host_example conf_frontier 10 db_empty"],
        where destination = 0 and sender = 0 and d = 0 and static = False]
    by (simp add: same)
qed

subsection \<open>Legacy classification (C4)\<close>

text \<open>
  Claim C4. When net metering is not active and the new value differs from the current
  one, \<^verbatim>\<open>SetStorage\<close> looks only at which of the two is zero: a current value of zero
  gives \<^verbatim>\<open>StorageAdded\<close> and leaves the refund alone; otherwise a new value of zero
  gives \<^verbatim>\<open>StorageDeleted\<close> and adds \<^verbatim>\<open>SstoreRefundGas\<close>; otherwise the status is
  \<^verbatim>\<open>StorageModified\<close> and the refund is unchanged. In legacy mode the refund counter
  never decreases and the subtraction is never attempted.
\<close>

theorem legacy_classification:
  assumes "\<not> hasNetStorageCostEIP host"
  shows "(case SetStorage V host addr key val of
            (st, host') \<Rightarrow>
              (let current = GetStorage host addr key;
                   r = refund (host_db host);
                   r' = refund (host_db host')
               in (val \<noteq> current \<longrightarrow>
                     (current = 0 \<longrightarrow> st = Inr StorageAdded \<and> r' = r) \<and>
                     (current \<noteq> 0 \<and> val = 0 \<longrightarrow>
                        st = Inr StorageDeleted \<and> r' = r + unat (SstoreRefundGas V)) \<and>
                     (current \<noteq> 0 \<and> val \<noteq> 0 \<longrightarrow> st = Inr StorageModified \<and> r' = r))
                  \<and> r \<le> r' \<and> st \<noteq> Inl RefundBelowZero))"
proof (cases "GetState (host_db host) addr key = val")
  case True
  then show ?thesis
    by (simp add: SetStorage_unchanged GetStorage_def)
next
  case False
  then show ?thesis
    using assms by (simp add: SetStorage_legacy GetStorage_def)
qed

text \<open>
  The scenario of the spec: a slot goes from 0 to 5 (added, refund unchanged) and from 5
  back to 0 (deleted, refund 15000).
\<close>

theorem legacy_classification_witness:
  "\<not> hasNetStorageCostEIP (host_example conf_frontier 10 db_empty) \<and>
   fst (SetStorage vars_example (host_example conf_frontier 10 db_empty) 1 2 5)
     = Inr StorageAdded \<and>
   refund (host_db (snd (SetStorage vars_example
      (host_example conf_frontier 10 db_empty) 1 2 5))) = 0 \<and>
   fst (SetStorage vars_example (host_example conf_frontier 10 (SetState db_empty 1 2 5)) 1 2 0)
     = Inr StorageDeleted \<and>
   refund (host_db (snd (SetStorage vars_example
      (host_example conf_frontier 10 (SetState db_empty 1 2 5)) 1 2 0))) = 15000"
  using legacy_classification [where host = "host_example conf_frontier 10 db_empty"
      and V = vars_example and addr = 1 and key = 2 and val = 5]
    legacy_classification [where host = "host_example conf_frontier 10 (SetState db_empty 1 2 5)"
      and V = vars_example and addr = 1 and key = 2 and val = 0]
  by (simp add: hasNetStorageCostEIP_def hasEIP2200_def hasEIP1884_def host_example_def conf_frontier_def IsEnabled_def with_db_def
      db_empty_def GetStorage_def GetState_def SetState_def vars_example_def
      split: prod.splits)

subsection \<open>The refund constants of net metering (C5)\<close>

text \<open>
  Claim C5 as stated fails: under constants for which the two pairs differ, no write in
  net-metering mode that restores the committed value grants a reset refund taken from
  the pair \<^verbatim>\<open>NetSstoreResetClearRefund\<close>, \<^verbatim>\<open>NetSstoreResetRefund\<close>. The refund of the
  write is compared after setting aside the clear refund that the same write takes back
  when it recreates a slot.
\<close>

theorem refund_pairs_counterexample:
  "\<not> (\<exists>host addr key val.
        hasNetStorageCostEIP host \<and>
        GetCommittedState (host_db host) addr key = val \<and>
        GetState (host_db host) addr key \<noteq> val \<and>
        fst (SetStorage vars_example host addr key val) = Inr StorageModifiedAgain \<and>
        refund (host_db (snd (SetStorage vars_example host addr key val)))
          + (if val \<noteq> 0 \<and> GetState (host_db host) addr key = 0
             then unat (NetSstoreClearRefund vars_example) else 0)
        = refund (host_db host)
          + (if val = 0 then unat (NetSstoreResetClearRefund vars_example)
             else unat (NetSstoreResetRefund vars_example)))"
proof
  assume "\<exists>host addr key val.
        hasNetStorageCostEIP host \<and>
        GetCommittedState (host_db host) addr key = val \<and>
        GetState (host_db host) addr key \<noteq> val \<and>
        fst (SetStorage vars_example host addr key val) = Inr StorageModifiedAgain \<and>
        refund (host_db (snd (SetStorage vars_example host addr key val)))
          + (if val \<noteq> 0 \<and> GetState (host_db host) addr key = 0
             then unat (NetSstoreClearRefund vars_example) else 0)
        = refund (host_db host)
          + (if val = 0 then unat (NetSstoreResetClearRefund vars_example)
             else unat (NetSstoreResetRefund vars_example))"
  then obtain host addr key val where
    net: "hasNetStorageCostEIP host" and
    orig: "GetCommittedState (host_db host) addr key = val" and
    cur: "GetState (host_db host) addr key \<noteq> val" and
    ok: "fst (SetStorage vars_example host addr key val) = Inr StorageModifiedAgain" and
    r: "refund (host_db (snd (SetStorage vars_example host addr key val)))
          + (if val \<noteq> 0 \<and> GetState (host_db host) addr key = 0
             then unat (NetSstoreClearRefund vars_example) else 0)
        = refund (host_db host)
          + (if val = 0 then unat (NetSstoreResetClearRefund vars_example)
             else unat (NetSstoreResetRefund vars_example))"
    by blast
  from SetStorage_reset_refund [OF net orig cur ok] r
  show False
    by (simp add: vars_example_def split: if_splits)
qed

text \<open>
  Claim C5, amended. Net metering is active only when both EIP2200 and EIP1884 are
  enabled: when either is missing the status is one of the four legacy ones. In
  net-metering mode EIP2200 is therefore enabled, and a write that restores the
  committed value is granted \<^verbatim>\<open>SstoreSetGasEIP2200 - SloadGasEIP2200\<close> when that value
  is zero and \<^verbatim>\<open>SstoreResetGasEIP2200 - SloadGasEIP2200\<close> when it is not. The other
  pair, \<^verbatim>\<open>NetSstoreResetClearRefund\<close> and \<^verbatim>\<open>NetSstoreResetRefund\<close>, is never used:
  \<^verbatim>\<open>SetStorage\<close> does not depend on it.
\<close>

theorem refund_pair_EIP2200:
  "(\<not> (hasEIP2200 host \<and> hasEIP1884 host) \<longrightarrow>
      fst (SetStorage V host addr key val)
        \<in> {Inr StorageUnchanged, Inr StorageAdded, Inr StorageDeleted, Inr StorageModified}) \<and>
   (hasEIP2200 host \<and> hasEIP1884 host \<and>
    GetCommittedState (host_db host) addr key = val \<and>
    GetState (host_db host) addr key \<noteq> val \<and>
    fst (SetStorage V host addr key val) \<noteq> Inl RefundBelowZero \<longrightarrow>
      fst (SetStorage V host addr key val) = Inr StorageModifiedAgain \<and>
      refund (host_db (snd (SetStorage V host addr key val)))
        + (if val \<noteq> 0 \<and> GetState (host_db host) addr key = 0
           then unat (NetSstoreClearRefund V) else 0)
      = refund (host_db host)
        + (if val = 0 then unat (SstoreSetGasEIP2200 V - SloadGasEIP2200 V)
           else unat (SstoreResetGasEIP2200 V - SloadGasEIP2200 V))) \<and>
   SetStorage (V\<lparr>NetSstoreResetRefund := a, NetSstoreResetClearRefund := b\<rparr>) host addr key val
     = SetStorage V host addr key val"
proof (intro conjI impI)
  assume "\<not> (hasEIP2200 host \<and> hasEIP1884 host)"
  then show "fst (SetStorage V host addr key val)
        \<in> {Inr StorageUnchanged, Inr StorageAdded, Inr StorageDeleted, Inr StorageModified}"
    using SetStorage_legacy_status [of host V addr key val]
    by (simp add: hasNetStorageCostEIP_def)
next
  assume a: "hasEIP2200 host \<and> hasEIP1884 host \<and>
    GetCommittedState (host_db host) addr key = val \<and>
    GetState (host_db host) addr key \<noteq> val \<and>
    fst (SetStorage V host addr key val) \<noteq> Inl RefundBelowZero"
  then have net: "hasNetStorageCostEIP host" by (simp add: hasNetStorageCostEIP_def)
  from a obtain st where st: "fst (SetStorage V host addr key val) = Inr st"
    by (cases "fst (SetStorage V host addr key val)") (auto dest: SetStorage_panic)
  from a have o: "GetCommittedState (host_db host) addr key = val"
    and c: "GetState (host_db host) addr key \<noteq> val" by simp_all
  show "fst (SetStorage V host addr key val) = Inr StorageModifiedAgain"
    using SetStorage_reset_refund [OF net o c st] st by simp
  show "refund (host_db (snd (SetStorage V host addr key val)))
        + (if val \<noteq> 0 \<and> GetState (host_db host) addr key = 0
           then unat (NetSstoreClearRefund V) else 0)
      = refund (host_db host)
        + (if val = 0 then unat (SstoreSetGasEIP2200 V - SloadGasEIP2200 V)
           else unat (SstoreResetGasEIP2200 V - SloadGasEIP2200 V))"
    using SetStorage_reset_refund [OF net o c st] by simp
next
  show "SetStorage (V\<lparr>NetSstoreResetRefund := a, NetSstoreResetClearRefund := b\<rparr>) host addr key val
     = SetStorage V host addr key val"
    by (rule SetStorage_ignores_NetSstoreReset)
qed

theorem refund_pair_EIP2200_witness:
  "\<not> (hasEIP2200 (host_example conf_frontier 10 db_empty) \<and>
        hasEIP1884 (host_example conf_frontier 10 db_empty)) \<and>
   (hasEIP2200 (host_example conf_istanbul 10 (SetState (db_committed 0) 1 2 3)) \<and>
    hasEIP1884 (host_example conf_istanbul 10 (SetState (db_committed 0) 1 2 3)) \<and>
    GetCommittedState (SetState (db_committed 0) 1 2 3) 1 2 = 0 \<and>
    GetState (SetState (db_committed 0) 1 2 3) 1 2 \<noteq> 0 \<and>
    fst (SetStorage vars_example
           (host_example conf_istanbul 10 (SetState (db_committed 0) 1 2 3)) 1 2 0)
      \<noteq> Inl RefundBelowZero) \<and>
   fst (SetStorage vars_example (host_example conf_frontier 10 db_empty) 1 2 5)
     = Inr StorageAdded \<and>
   refund (host_db (snd (SetStorage vars_example
      (host_example conf_istanbul 10 (SetState (db_committed 0) 1 2 3)) 1 2 0))) = 19200"
proof -
  let ?hL = "host_example conf_frontier 10 db_empty"
  let ?hN = "host_example conf_istanbul 10 (SetState (db_committed 0) 1 2 3)"
  have legacy: "\<not> (hasEIP2200 ?hL \<and> hasEIP1884 ?hL)"
    by (simp add: hasEIP2200_def host_example_def conf_frontier_def IsEnabled_def)
  have net: "hasEIP2200 ?hN \<and> hasEIP1884 ?hN"
    by (simp add: hasEIP2200_def hasEIP1884_def host_example_def conf_istanbul_def IsEnabled_def)
  have slot: "GetCommittedState (SetState (db_committed 0) 1 2 3) 1 2 = 0 \<and>
      GetState (SetState (db_committed 0) 1 2 3) 1 2 \<noteq> 0"
    by (simp add: db_committed_def db_empty_def GetCommittedState_def GetState_def
        SetState_def)
  have db: "host_db ?hN = SetState (db_committed 0) 1 2 3"
    by (simp add: host_example_def)
  have added: "fst (SetStorage vars_example ?hL 1 2 5) = Inr StorageAdded"
    by (simp add: SetStorage_def Let_def host_example_def db_empty_def GetState_def
        conf_frontier_def IsEnabled_def)
  have run: "fst (SetStorage vars_example ?hN 1 2 0) = Inr StorageModifiedAgain"
    by (simp add: SetStorage_def Let_def host_example_def db_empty_def db_committed_def
        GetState_def GetCommittedState_def SetState_def conf_istanbul_def IsEnabled_def)
  have r0: "refund (host_db ?hN) = 0"
    by (simp add: host_example_def db_committed_def db_empty_def)
  from refund_pair_EIP2200 [where host = ?hN and V = vars_example and addr = 1 and key = 2
      and val = 0 and a = 0 and b = 0] net slot run db r0
  have "refund (host_db (snd (SetStorage vars_example ?hN 1 2 0))) = 19200"
    by (simp add: vars_example_def)
  with legacy net slot added run show ?thesis
    by simp
qed

subsection \<open>The block-hash window (C6, C10)\<close>

lemma sint_Int64: "- (2 ^ 63) \<le> b \<Longrightarrow> b < 2 ^ 63 \<Longrightarrow> sint (Int64 b) = b"
  unfolding Int64_def
  by (simp add: sint_sbintrunc' signed_take_bit_int_eq_self)

lemma Int64_sub: "Int64 b - 256 = Int64 (b - 256)"
  unfolding Int64_def by simp

lemma uint64_of_int64_id: "uint64_of_int64 x = x"
proof -
  have "uint (word_of_int (sint x mod 2 ^ 64) :: 64 word) = take_bit 64 (sint x)"
    by (simp add: uint_word_of_int take_bit_eq_mod)
  also have "\<dots> = uint x"
    by (simp add: uint_sint)
  finally show ?thesis
    unfolding uint64_of_int64_def by (rule word_uint_eqI)
qed

lemma uint_uint64_of_int64: "uint (uint64_of_int64 x) = sint x mod 2 ^ 64"
  unfolding uint64_of_int64_def
  by (simp add: uint_word_of_int)

lemma GetBlockHash_eq:
  assumes "- (2 ^ 63) + 256 \<le> b" "b < 2 ^ 63" "BlockNumber (Context (host_env host)) = b"
  shows "GetBlockHash host number =
     (if b - 256 \<le> sint number \<and> sint number < b
      then GetHash (Context (host_env host)) (uint64_of_int64 number) else 0)"
  using assms unfolding GetBlockHash_def Let_def
  by (simp add: word_sle_eq word_sless_alt Int64_sub sint_Int64)

text \<open>
  Claim C6. For a block height \<open>b\<close> that is not negative and fits an \<^verbatim>\<open>int64\<close>,
  \<^verbatim>\<open>GetBlockHash(n)\<close> is the environment's hash function applied to \<^verbatim>\<open>uint64(n)\<close>
  when \<open>b - 256 \<le> n < b\<close> and the zero hash for every other \<open>n\<close>; \<^verbatim>\<open>uint64(n)\<close> is
  \<open>n\<close> itself when \<open>n\<close> is not negative. At the two boundaries \<open>n = b\<close> and
  \<open>n = b - 257\<close> the result is the zero hash.
\<close>

theorem GetBlockHash_window:
  assumes "0 \<le> b" and "b < 2 ^ 63" and "BlockNumber (Context (host_env host)) = b"
  shows "GetBlockHash host number =
           (if b - 256 \<le> sint number \<and> sint number < b
            then GetHash (Context (host_env host)) (uint64_of_int64 number) else 0) \<and>
         (0 \<le> sint number \<longrightarrow> uint (uint64_of_int64 number) = sint number) \<and>
         GetBlockHash host (Int64 b) = 0 \<and>
         GetBlockHash host (Int64 (b - 257)) = 0"
proof -
  have eq: "GetBlockHash host n =
           (if b - 256 \<le> sint n \<and> sint n < b
            then GetHash (Context (host_env host)) (uint64_of_int64 n) else 0)" for n
    using assms by (intro GetBlockHash_eq) simp_all
  have b: "sint (Int64 b) = b"
    using assms by (intro sint_Int64) simp_all
  have b257: "sint (Int64 (b - 257)) = b - 257"
    using assms by (intro sint_Int64) simp_all
  have nonneg: "uint (uint64_of_int64 number) = sint number" if "0 \<le> sint number"
  proof -
    have "sint number < 2 ^ 64"
      using sint_lt [of number] by simp
    with that show ?thesis
      by (simp add: uint_uint64_of_int64)
  qed
  show ?thesis
    using eq [of number] eq [of "Int64 b"] eq [of "Int64 (b - 257)"] b b257 nonneg
    by simp
qed

theorem GetBlockHash_window_witness:
  "(0::int) \<le> 1000 \<and> (1000::int) < 2 ^ 63 \<and>
   BlockNumber (Context (host_env (host_example conf_frontier 1000 db_empty))) = 1000 \<and>
   GetBlockHash (host_example conf_frontier 1000 db_empty) 744 = 745 \<and>
   GetBlockHash (host_example conf_frontier 1000 db_empty) 999 = 1000 \<and>
   GetBlockHash (host_example conf_frontier 1000 db_empty) 1000 = 0 \<and>
   GetBlockHash (host_example conf_frontier 1000 db_empty) 743 = 0"
  using GetBlockHash_window [where b = 1000 and host = "host_example conf_frontier 1000 db_empty"
      and number = 744]
    GetBlockHash_window [where b = 1000 and host = "host_example conf_frontier 1000 db_empty"
      and number = 999]
  by (simp add: host_example_def uint64_of_int64_id Int64_def)

text \<open>
  Claim C10. The window check does not exclude negative numbers. When the height
  \<open>b\<close> is below 257, a negative \<open>n\<close> with \<open>n \<ge> b - 256\<close> passes the check and the
  hash function is called with \<^verbatim>\<open>uint64(n)\<close>, which is \<open>n mod 2 ^ 64\<close>, that is
  \<open>2 ^ 64 + n\<close>; the result is not the zero hash by rejection.
\<close>

theorem GetBlockHash_negative:
  assumes "0 \<le> b" and "b < 257" and "BlockNumber (Context (host_env host)) = b"
    and "sint number < 0" and "b - 256 \<le> sint number"
  shows "GetBlockHash host number = GetHash (Context (host_env host)) (uint64_of_int64 number) \<and>
         uint (uint64_of_int64 number) = sint number mod 2 ^ 64 \<and>
         uint (uint64_of_int64 number) = 2 ^ 64 + sint number"
proof -
  have "GetBlockHash host number =
           (if b - 256 \<le> sint number \<and> sint number < b
            then GetHash (Context (host_env host)) (uint64_of_int64 number) else 0)"
    using assms by (intro GetBlockHash_eq) simp_all
  moreover have "sint number < b"
    using assms by simp
  moreover have "sint number mod 2 ^ 64 = 2 ^ 64 + sint number"
  proof -
    have "- (2 ^ 63) \<le> sint number"
      using sint_ge [of number] by simp
    then have "0 \<le> 2 ^ 64 + sint number" "2 ^ 64 + sint number < 2 ^ 64"
      using assms by simp_all
    then have "(2 ^ 64 + sint number) mod 2 ^ 64 = 2 ^ 64 + sint number"
      by (rule mod_pos_pos_trivial)
    then show ?thesis by simp
  qed
  ultimately show ?thesis
    using assms by (simp add: uint_uint64_of_int64)
qed

theorem GetBlockHash_negative_witness:
  "(0::int) \<le> 10 \<and> (10::int) < 257 \<and>
   BlockNumber (Context (host_env (host_example conf_frontier 10 db_empty))) = 10 \<and>
   sint (- 5 :: int64) < 0 \<and> 10 - 256 \<le> sint (- 5 :: int64) \<and>
   GetBlockHash (host_example conf_frontier 10 db_empty) (- 5) = 1 + ucast (- 5 :: uint64) \<and>
   uint (uint64_of_int64 (- 5)) = 18446744073709551611"
  using GetBlockHash_negative [where b = 10 and host = "host_example conf_frontier 10 db_empty"
      and number = "- 5"]
  by (simp add: host_example_def uint64_of_int64_id)

subsection \<open>The revision scenario (C7)\<close>

text \<open>
  Claim C7 as stated fails at height 99: with the EIP150 and EIP155 transitions at
  height 100, neither is enabled at 99, and the resolver falls through to the older
  revisions. With EIP7 enabled from height 0 it returns \<^verbatim>\<open>Homestead\<close>.
\<close>

theorem getRevision_counterexample:
  "GetEIP150Transition conf_150_155 = Some 100 \<and> GetEIP155Transition conf_150_155 = Some 100 \<and>
   GetEIP198Transition conf_150_155 = None \<and> GetEIP145Transition conf_150_155 = None \<and>
   GetEIP1283DisableTransition conf_150_155 = None \<and> GetEIP1884Transition conf_150_155 = None \<and>
   getRevision (host_env (host_example conf_150_155 100 db_empty)) = SpuriousDragon \<and>
   getRevision (host_env (host_example conf_150_155 99 db_empty)) = Homestead \<and>
   getRevision (host_env (host_example conf_150_155 99 db_empty)) \<noteq> TangerineWhistle"
  by (simp add: getRevision_def host_example_def conf_150_155_def conf_frontier_def
      IsEnabled_def)

text \<open>
  Claim C7, amended. Take a configuration with the EIP155 transition at height 100, the
  EIP150 transition at a height of at most 100, and none of the later transitions
  (EIP198, EIP145, EIP1283-disable, EIP1884) set. At height 100 the resolver returns
  \<^verbatim>\<open>SpuriousDragon\<close>. At height 99 it returns \<^verbatim>\<open>TangerineWhistle\<close> only when the
  EIP150 transition is already enabled there, that is, at a height of at most 99; when
  both transitions are at height 100 it returns \<^verbatim>\<open>Homestead\<close> if the EIP7 transition
  is enabled at height 99 and \<^verbatim>\<open>Frontier\<close> otherwise.
\<close>

theorem getRevision_scenario:
  assumes "GetEIP150Transition (chainConfig e) = Some h150" and "uint h150 \<le> 100"
    and "GetEIP155Transition (chainConfig e) = Some 100"
    and "GetEIP198Transition (chainConfig e) = None"
    and "GetEIP145Transition (chainConfig e) = None"
    and "GetEIP1283DisableTransition (chainConfig e) = None"
    and "GetEIP1884Transition (chainConfig e) = None"
  shows "(BlockNumber (Context e) = 100 \<longrightarrow> getRevision e = SpuriousDragon) \<and>
         (BlockNumber (Context e) = 99 \<longrightarrow>
            getRevision e =
              (if uint h150 \<le> 99 then TangerineWhistle
               else if IsEnabled (GetEIP7Transition (chainConfig e)) 99 then Homestead
               else Frontier))"
  using assms by (simp add: getRevision_def IsEnabled_def)

theorem getRevision_scenario_witness:
  "GetEIP150Transition (chainConfig (host_env (host_example conf_150_155 100 db_empty))) = Some 100 \<and>
   uint (100 :: uint64) \<le> 100 \<and>
   GetEIP155Transition (chainConfig (host_env (host_example conf_150_155 100 db_empty))) = Some 100 \<and>
   GetEIP198Transition (chainConfig (host_env (host_example conf_150_155 100 db_empty))) = None \<and>
   GetEIP145Transition (chainConfig (host_env (host_example conf_150_155 100 db_empty))) = None \<and>
   GetEIP1283DisableTransition (chainConfig (host_env (host_example conf_150_155 100 db_empty))) = None \<and>
   GetEIP1884Transition (chainConfig (host_env (host_example conf_150_155 100 db_empty))) = None \<and>
   BlockNumber (Context (host_env (host_example conf_150_155 100 db_empty))) = 100 \<and>
   BlockNumber (Context (host_env (host_example conf_150_155 99 db_empty))) = 99 \<and>
   getRevision (host_env (host_example conf_150_155 100 db_empty)) = SpuriousDragon \<and>
   getRevision (host_env (host_example conf_150_155 99 db_empty)) = Homestead \<and>
   getRevision (host_env (host_example (conf_150_155\<lparr>GetEIP150Transition := Some 50\<rparr>) 99 db_empty))
     = TangerineWhistle"
  using getRevision_scenario [where e = "host_env (host_example conf_150_155 100 db_empty)"
      and ?h150.0 = 100]
    getRevision_scenario [where e = "host_env (host_example conf_150_155 99 db_empty)"
      and ?h150.0 = 100]
    getRevision_scenario [where e = "host_env (host_example
      (conf_150_155\<lparr>GetEIP150Transition := Some 50\<rparr>) 99 db_empty)" and ?h150.0 = 50]
  by (simp add: host_example_def conf_150_155_def conf_frontier_def IsEnabled_def)

subsection \<open>The write of SetStorage (C8)\<close>

text \<open>
  Claim C8 as stated fails when the new value equals the current one: \<^verbatim>\<open>SetStorage\<close>
  returns \<^verbatim>\<open>StorageUnchanged\<close> before it reaches \<^verbatim>\<open>SetState\<close>, and the set
  operation is not invoked.
\<close>

theorem SetStorage_write_counterexample:
  "fst (SetStorage vars_example (host_example conf_frontier 10 db_empty) 1 2 0)
     = Inr StorageUnchanged \<and>
   setLog (host_db (snd (SetStorage vars_example (host_example conf_frontier 10 db_empty) 1 2 0)))
     \<noteq> (1, 2, 0) # setLog (host_db (host_example conf_frontier 10 db_empty))"
  by (simp add: SetStorage_def host_example_def db_empty_def GetState_def)

text \<open>
  Claim C8, amended. \<^verbatim>\<open>SetStorage\<close> invokes the set operation, once and with the
  new value, exactly when the new value differs from the current one, whatever status
  it then computes; when the two are equal it returns \<^verbatim>\<open>StorageUnchanged\<close> and leaves
  the state accessor untouched. In both cases the slot holds the new value afterwards.
\<close>

theorem SetStorage_write:
  "(case SetStorage V host addr key val of
      (st, host') \<Rightarrow>
        setLog (host_db host') =
          (if val = GetStorage host addr key then setLog (host_db host)
           else (addr, key, val) # setLog (host_db host)) \<and>
        (st = Inr StorageUnchanged \<longleftrightarrow> val = GetStorage host addr key) \<and>
        (val = GetStorage host addr key \<longrightarrow> host' = host) \<and>
        GetStorage host' addr key = val)"
  using SetStorage_setLog [of V host addr key val] SetStorage_GetState [of V host addr key val]
    SetStorage_Unchanged_iff [of V host addr key val]
    SetStorage_unchanged [of host addr key val V]
  by (auto simp: GetStorage_def split: prod.splits)

theorem SetStorage_write_witness:
  "setLog (host_db (snd (SetStorage vars_example (host_example conf_frontier 10 db_empty) 1 2 5)))
     = [(1, 2, 5)] \<and>
   (0 :: hash) = GetStorage (host_example conf_frontier 10 db_empty) 1 2 \<and>
   snd (SetStorage vars_example (host_example conf_frontier 10 db_empty) 1 2 0)
     = host_example conf_frontier 10 db_empty"
  using SetStorage_write [where host = "host_example conf_frontier 10 db_empty"
      and V = vars_example and addr = 1 and key = 2 and val = 5]
    SetStorage_write [where host = "host_example conf_frontier 10 db_empty"
      and V = vars_example and addr = 1 and key = 2 and val = 0]
  by (simp add: host_example_def db_empty_def GetStorage_def GetState_def split: prod.splits)

subsection \<open>Self-destruct (C9)\<close>

lemma Selfdestruct_db:
  "host_db (Selfdestruct V host addr beneficiary) =
     Suicide (AddBalance
        (if \<not> HasSuicided (host_db host) addr
         then AddRefund (host_db host) (SelfdestructRefundGas V) else host_db host)
        beneficiary (GetBalance (host_db host) addr)) addr"
  by (simp add: Selfdestruct_def Let_def GetBalance_def AddRefund_def)

lemma Selfdestruct_refund:
  "refund (host_db (Selfdestruct V host addr beneficiary)) =
     refund (host_db host)
       + (if HasSuicided (host_db host) addr then 0 else unat (SelfdestructRefundGas V))"
  by (simp add: Selfdestruct_db Suicide_def AddBalance_def AddRefund_def)

lemma Selfdestruct_HasSuicided:
  "HasSuicided (host_db (Selfdestruct V host addr beneficiary)) addr"
  by (simp add: Selfdestruct_db Suicide_def HasSuicided_def)

lemma Selfdestruct_balance:
  "GetBalance (host_db (Selfdestruct V host addr beneficiary)) a =
     (if a = addr then 0
      else if a = beneficiary
        then GetBalance (host_db host) beneficiary + GetBalance (host_db host) addr
      else GetBalance (host_db host) a)"
  by (simp add: Selfdestruct_db Suicide_def AddBalance_def AddRefund_def GetBalance_def)

text \<open>
  Claim C9. \<^verbatim>\<open>Selfdestruct\<close> adds \<^verbatim>\<open>SelfdestructRefundGas\<close> to the refund counter
  exactly when the account has not self-destructed before. On every call it credits the
  beneficiary with the whole current balance of the account and marks the account
  destroyed, which empties the account (also when the beneficiary is the account
  itself). A second call on the same address leaves the refund counter as the first
  call left it, and credits the balance the account then has.
\<close>

theorem Selfdestruct_refund_once:
  "(let db = host_db host;
        host1 = Selfdestruct V host addr beneficiary;
        db1 = host_db host1;
        host2 = Selfdestruct V host1 addr beneficiary';
        db2 = host_db host2
    in refund db1 =
         refund db + (if HasSuicided db addr then 0 else unat (SelfdestructRefundGas V)) \<and>
       HasSuicided db1 addr \<and>
       GetBalance db1 beneficiary =
         (if beneficiary = addr then 0 else GetBalance db beneficiary + GetBalance db addr) \<and>
       GetBalance db1 addr = 0 \<and>
       refund db2 = refund db1 \<and>
       HasSuicided db2 addr \<and>
       GetBalance db2 beneficiary' =
         (if beneficiary' = addr then 0 else GetBalance db1 beneficiary' + GetBalance db1 addr))"
  unfolding Let_def
  by (simp add: Selfdestruct_refund Selfdestruct_HasSuicided Selfdestruct_balance)

theorem Selfdestruct_refund_once_witness:
  "refund (host_db (Selfdestruct vars_example (host_example conf_frontier 10 db_funded) 1 2))
     = 24000 \<and>
   GetBalance (host_db (Selfdestruct vars_example (host_example conf_frontier 10 db_funded) 1 2)) 2
     = 57 \<and>
   refund (host_db (Selfdestruct vars_example
      (Selfdestruct vars_example (host_example conf_frontier 10 db_funded) 1 2) 1 2)) = 24000 \<and>
   GetBalance (host_db (Selfdestruct vars_example
      (Selfdestruct vars_example (host_example conf_frontier 10 db_funded) 1 2) 1 2)) 2 = 57"
  using Selfdestruct_refund_once [where host = "host_example conf_frontier 10 db_funded"
      and V = vars_example and addr = 1 and beneficiary = 2 and beneficiary' = 2]
  by (simp add: Let_def host_example_def db_funded_def db_empty_def HasSuicided_def
      GetBalance_def vars_example_def)

end
